theory Spec2Isabelle
  imports Complex_Main "HOL-Library.Sublist"
begin

section \<open>JavaScript values\<close>

text \<open>
  The validators of \<^verbatim>\<open>src/trezor/validators.js\<close> take a parameter typed \<^verbatim>\<open>any\<close>.
  The values modelled are the primitives undefined, null, booleans, numbers and strings,
  and \<open>JObject c\<close>: an object that has none of the properties \<^verbatim>\<open>split\<close>,
  \<^verbatim>\<open>match\<close> and \<^verbatim>\<open>length\<close>. The flag \<open>c\<close> tells whether the object can be
  converted to a primitive: \<open>JObject True\<close> is an ordinary object such as \<^verbatim>\<open>{}\<close>,
  which inherits \<^verbatim>\<open>toString\<close> and \<^verbatim>\<open>valueOf\<close> and converts to the text
  \<^verbatim>\<open>[object Object]\<close>; \<open>JObject False\<close> is an object with no callable
  \<^verbatim>\<open>toString\<close> or \<^verbatim>\<open>valueOf\<close>, such as \<^verbatim>\<open>Object.create(null)\<close>, whose
  conversion throws a \<^verbatim>\<open>TypeError\<close>. Symbols, objects that define \<^verbatim>\<open>split\<close>,
  \<^verbatim>\<open>match\<close> or \<^verbatim>\<open>length\<close> themselves, and objects whose conversion methods run
  code of their own are outside this type.

  A number is NaN, an infinity, or a finite value. Every finite double is a real number,
  so \<open>Finite\<close> ranges over a superset of the doubles; the validators only compare
  numbers and never compute with them, so no rounding is involved.

  A string is a list of 8-bit code units.
\<close>

datatype jsnumber = NaN | PosInfinity | NegInfinity | Finite real

datatype jsval =
    JUndefined
  | JNull
  | JBoolean bool
  | JNumber jsnumber
  | JString string
  | JObject bool

fun typeof :: "jsval \<Rightarrow> string" where
  "typeof JUndefined = ''undefined''"
| "typeof JNull = ''object''"
| "typeof (JBoolean b) = ''boolean''"
| "typeof (JNumber n) = ''number''"
| "typeof (JString s) = ''string''"
| "typeof (JObject c) = ''object''"

text \<open>Truthiness, as \<^verbatim>\<open>||\<close> and \<^verbatim>\<open>!!\<close> test it.\<close>

fun truthy :: "jsval \<Rightarrow> bool" where
  "truthy JUndefined = False"
| "truthy JNull = False"
| "truthy (JBoolean b) = b"
| "truthy (JNumber NaN) = False"
| "truthy (JNumber (Finite x)) = (x \<noteq> 0)"
| "truthy (JNumber PosInfinity) = True"
| "truthy (JNumber NegInfinity) = True"
| "truthy (JString s) = (s \<noteq> [])"
| "truthy (JObject c) = True"

text \<open>
  Whether the conversion of a value to a string, or of an object to a primitive, returns:
  it does on every primitive, and on an object as its flag says.
\<close>

fun converts :: "jsval \<Rightarrow> bool" where
  "converts (JObject c) = c"
| "converts v = True"

section \<open>Thrown errors and their messages\<close>

text \<open>
  The texts of \<^verbatim>\<open>./messages\<close> are not part of the sources, so a message is kept as the
  sequence of pieces its template literal concatenates: \<open>Msg g k\<close> is the text
  \<^verbatim>\<open>messages[g][k]\<close>, \<open>Lit s\<close> a literal string, \<open>Val v\<close> the string conversion of the
  value \<open>v\<close>, and \<open>ErrorStringOr v s\<close> is \<^verbatim>\<open>objectToErrorString(v) || s\<close>.
  Modelled from the spec: \<^verbatim>\<open>objectToErrorString\<close> of \<^verbatim>\<open>../utils\<close> (not part of the
  sources) gives "a serialized representation of whatever was actually passed (falling
  back to a constant placeholder if serialization itself is unsafe)"; it returns on every
  value and its text is kept as a piece.
  A message is one template literal (\<open>Text\<close>) or an array of them (\<open>Fragments\<close>).
  A thrown value is an \<^verbatim>\<open>Error\<close> carrying a message, or the \<^verbatim>\<open>TypeError\<close> that the
  language raises when a property of undefined or null is read, a non-function is called,
  or an object that cannot be converted to a primitive is converted.
\<close>

datatype piece =
    Msg string string
  | Lit string
  | Val jsval
  | ErrorStringOr jsval string

datatype message = Text "piece list" | Fragments "piece list list"

datatype thrown = Error message | TypeError

section \<open>Imported constants\<close>

text \<open>
  \<^verbatim>\<open>PATH\<close>, \<^verbatim>\<open>MATCH\<close>, \<^verbatim>\<open>UNDEFINED\<close> and \<^verbatim>\<open>SPLITTER\<close> are imported from
  \<^verbatim>\<open>./defaults\<close>, which is not part of the sources: the validators take them as a
  parameter. A regular expression of \<^verbatim>\<open>MATCH\<close> is the predicate telling whether
  \<^verbatim>\<open>String.prototype.match\<close> finds a match in a string.
\<close>

record defaults =
  PATH_DELIMITER :: string
  PATH_HEADER_KEY :: string
  PATH_PURPOSE :: int
  PATH_COIN_MAINNET :: int
  PATH_COIN_TESTNET :: int
  SPLITTER :: string
  UNDEFINED :: string
  MATCH_DIGITS :: "string \<Rightarrow> bool"
  MATCH_ADDRESS :: "string \<Rightarrow> bool"
  MATCH_HEX_STRING :: "string \<Rightarrow> bool"

definition is_digit :: "char \<Rightarrow> bool" where
  "is_digit c = (c \<in> set ''0123456789'')"

definition is_hex_digit :: "char \<Rightarrow> bool" where
  "is_hex_digit c = (c \<in> set ''0123456789abcdefABCDEF'')"

text \<open>
  Modelled from the spec: the three patterns of \<^verbatim>\<open>MATCH\<close> (in \<^verbatim>\<open>./defaults\<close>, not
  part of the sources). The account and change/index segments are "digits-only"; an
  address is "40 or 42 characters matching a hex pattern (with optional \<^verbatim>\<open>0x\<close> prefix)";
  a hex sequence "matches a hex pattern".
\<close>

definition DIGITS_pattern :: "string \<Rightarrow> bool" where
  "DIGITS_pattern s = (s \<noteq> [] \<and> list_all is_digit s)"

definition ADDRESS_pattern :: "string \<Rightarrow> bool" where
  "ADDRESS_pattern s =
     ((length s = 40 \<and> list_all is_hex_digit s) \<or>
      (prefix ''0x'' s \<and> length (drop 2 s) = 40 \<and> list_all is_hex_digit (drop 2 s)))"

definition HEX_STRING_pattern :: "string \<Rightarrow> bool" where
  "HEX_STRING_pattern s =
     (list_all is_hex_digit s \<or> (prefix ''0x'' s \<and> list_all is_hex_digit (drop 2 s)))"

text \<open>
  Modelled from the spec: the constants of \<^verbatim>\<open>./defaults\<close> (not part of the sources).
  The header is \<^verbatim>\<open>m\<close>, the purpose 44, the coin types 60 (mainnet) and 1 (testnet).
  The spec does not give the two separators as values. The validator reads the header and
  the purpose out of segment 0 and the change and index out of segment 3, both cut at
  \<^verbatim>\<open>SPLITTER\<close>, and the coin type and the account out of segments 1 and 2; the path
  \<^verbatim>\<open>m/44'/60'/0'/0\<close> has that shape when the delimiter is \<^verbatim>\<open>'/\<close> and the splitter
  is \<^verbatim>\<open>/\<close>.
\<close>

definition trezor_defaults :: defaults where
  "trezor_defaults =
     \<lparr> PATH_DELIMITER = [CHR 0x27, CHR ''/''],
       PATH_HEADER_KEY = ''m'',
       PATH_PURPOSE = 44,
       PATH_COIN_MAINNET = 60,
       PATH_COIN_TESTNET = 1,
       SPLITTER = ''/'',
       UNDEFINED = ''undefined'',
       MATCH_DIGITS = DIGITS_pattern,
       MATCH_ADDRESS = ADDRESS_pattern,
       MATCH_HEX_STRING = HEX_STRING_pattern \<rparr>"

section \<open>String and array operations of the language\<close>

text \<open>
  \<^verbatim>\<open>String.prototype.split\<close> with a string separator: the string is cut at every
  occurrence of the separator, scanning from the left; an empty separator cuts it into its
  code units.
\<close>

function split_from :: "string \<Rightarrow> string \<Rightarrow> string \<Rightarrow> string list" where
  "split_from sep acc [] = [acc]"
| "split_from sep acc (c # cs) =
     (if sep \<noteq> [] \<and> prefix sep (c # cs)
      then acc # split_from sep [] (drop (length sep) (c # cs))
      else split_from sep (acc @ [c]) cs)"
  by pat_completeness auto
termination
  by (relation "measure (\<lambda>(sep, acc, s). length s)") auto

definition split :: "string \<Rightarrow> string \<Rightarrow> string list" where
  "split s sep = (if sep = [] then map (\<lambda>c. [c]) s else split_from sep [] s)"

text \<open>\<^verbatim>\<open>Array.prototype.join\<close> with a string separator.\<close>

fun join :: "string \<Rightarrow> string list \<Rightarrow> string" where
  "join sep [] = []"
| "join sep [x] = x"
| "join sep (x # y # ys) = x @ sep @ join sep (y # ys)"

text \<open>Reading an array at an index: \<open>None\<close> is \<^verbatim>\<open>undefined\<close>.\<close>

definition at_index :: "'a list \<Rightarrow> nat \<Rightarrow> 'a option" where
  "at_index xs i = (if i < length xs then Some (xs ! i) else None)"

text \<open>
  Calling \<^verbatim>\<open>v.split(sep)\<close>: a string has the method; reading the property of undefined
  or null throws, and on the other values the property is undefined and the call throws.
\<close>

fun call_split :: "jsval \<Rightarrow> string \<Rightarrow> thrown + string list" where
  "call_split (JString s) sep = Inr (split s sep)"
| "call_split v sep = Inl TypeError"

text \<open>
  Calling \<^verbatim>\<open>v.match(re)\<close> and taking \<^verbatim>\<open>!!\<close> of the result, in the same way.
\<close>

fun call_match :: "jsval \<Rightarrow> (string \<Rightarrow> bool) \<Rightarrow> thrown + bool" where
  "call_match (JString s) re = Inr (re s)"
| "call_match v re = Inl TypeError"

text \<open>
  Reading \<^verbatim>\<open>v.length\<close>: throws on undefined and null, is the number of code units of a
  string, and is undefined (\<open>None\<close>) on the other values.
\<close>

fun get_length :: "jsval \<Rightarrow> thrown + nat option" where
  "get_length JUndefined = Inl TypeError"
| "get_length JNull = Inl TypeError"
| "get_length (JString s) = Inr (Some (length s))"
| "get_length v = Inr None"

text \<open>
  \<^verbatim>\<open>String.prototype.toLowerCase\<close> on 8-bit code units: the letters A to Z and the
  capital letters of the Latin-1 range move up by 32.
\<close>

definition toLowerCase_char :: "char \<Rightarrow> char" where
  "toLowerCase_char c =
     (let n = (of_char c :: nat)
      in if (65 \<le> n \<and> n \<le> 90) \<or> (192 \<le> n \<and> n \<le> 214) \<or> (216 \<le> n \<and> n \<le> 222)
         then char_of (n + 32) else c)"

definition toLowerCase :: "string \<Rightarrow> string" where
  "toLowerCase s = map toLowerCase_char s"

text \<open>
  \<^verbatim>\<open>parseInt(x, 10)\<close>: the argument is converted to a string (\<^verbatim>\<open>undefined\<close> becomes
  the text "undefined"), leading white space is dropped, an optional sign is read, and
  the longest run of decimal digits that follows is the value; with no digit the result
  is NaN (\<open>None\<close>). The value is compared against small integer constants only, which
  doubles hold exactly, so it is kept as an integer.
\<close>

definition is_space :: "char \<Rightarrow> bool" where
  "is_space c = (c \<in> set [CHR 0x09, CHR 0x0A, CHR 0x0B, CHR 0x0C, CHR 0x0D, CHR 0x20, CHR 0xA0])"

definition digit_value :: "char \<Rightarrow> int" where
  "digit_value c = int (of_char c) - 48"

definition parseInt_string :: "string \<Rightarrow> int option" where
  "parseInt_string s =
     (let t = dropWhile is_space s;
          negative = (t \<noteq> [] \<and> hd t = CHR ''-'');
          u = (if t \<noteq> [] \<and> (hd t = CHR ''-'' \<or> hd t = CHR ''+'') then tl t else t);
          ds = takeWhile is_digit u
      in if ds = [] then None
         else Some ((if negative then - 1 else 1) * foldl (\<lambda>a c. 10 * a + digit_value c) 0 ds))"

definition parseInt :: "string option \<Rightarrow> int option" where
  "parseInt x = (case x of None \<Rightarrow> parseInt_string ''undefined'' | Some s \<Rightarrow> parseInt_string s)"

text \<open>\<^verbatim>\<open>x || UNDEFINED\<close> inside a message, for a value and for an array element.\<close>

definition value_or :: "jsval \<Rightarrow> string \<Rightarrow> piece" where
  "value_or v placeholder = (if truthy v then Val v else Lit placeholder)"

text \<open>
  Evaluating the template literal: \<^verbatim>\<open>${v}\<close> converts the value to a string, and
  \<^verbatim>\<open>${v || UNDEFINED}\<close> converts the value when it is truthy and writes the placeholder
  otherwise. The conversion throws a \<^verbatim>\<open>TypeError\<close> on an object that cannot be
  converted.
\<close>

definition interpolate :: "jsval \<Rightarrow> thrown + piece" where
  "interpolate v = (if converts v then Inr (Val v) else Inl TypeError)"

definition interpolate_or :: "jsval \<Rightarrow> string \<Rightarrow> thrown + piece" where
  "interpolate_or v placeholder =
     (if truthy v \<and> \<not> converts v then Inl TypeError else Inr (value_or v placeholder))"

definition element_or :: "string option \<Rightarrow> string \<Rightarrow> piece" where
  "element_or x placeholder =
     (case x of None \<Rightarrow> Lit placeholder | Some s \<Rightarrow> if s \<noteq> [] then Lit s else Lit placeholder)"

section \<open>The sequence runner\<close>

text \<open>
  Modelled from the spec: \<^verbatim>\<open>assertTruth\<close> and \<^verbatim>\<open>validatorGenerator\<close> of
  \<^verbatim>\<open>../utils\<close> (not part of the sources). The runner is given an ordered sequence of
  rules, each an expression that has already been evaluated and a message, and a generic
  message. On the first rule whose expression is false it fails with that rule's message;
  when all rules pass it returns true; on an empty sequence it fails with the generic
  message.
\<close>

definition assertTruth :: "bool \<Rightarrow> message \<Rightarrow> thrown + bool" where
  "assertTruth expression msg = (if expression then Inr True else Inl (Error msg))"

fun run_sequence :: "(bool \<times> message) list \<Rightarrow> thrown + bool" where
  "run_sequence [] = Inr True"
| "run_sequence ((expression, msg) # rest) =
     (case assertTruth expression msg of
        Inl e \<Rightarrow> Inl e
      | Inr ok \<Rightarrow> run_sequence rest)"

definition validatorGenerator :: "(bool \<times> message) list \<Rightarrow> message \<Rightarrow> thrown + bool" where
  "validatorGenerator validationSequence genericError =
     (if validationSequence = [] then Inl (Error genericError)
      else run_sequence validationSequence)"

section \<open>The validators of \<^verbatim>\<open>src/trezor/validators.js\<close>\<close>

subsection \<open>derivationPathValidator\<close>

text \<open>
  The six rules, built once the split is known to have four segments (so the reads of
  segments 0 to 3 are in range). All expressions are evaluated while the array is built:
  reading element 0 of the header split and calling \<^verbatim>\<open>toLowerCase\<close> on it throws when
  that split is empty.
\<close>

definition derivationPath_validationSequence ::
  "defaults \<Rightarrow> string list \<Rightarrow> int option \<Rightarrow> thrown + (bool \<times> message) list" where
  "derivationPath_validationSequence d deSerializedDerivationPath coinType =
     (case at_index (split (deSerializedDerivationPath ! 0) (SPLITTER d)) 0 of
        None \<Rightarrow> Inl TypeError
      | Some headerKey \<Rightarrow> Inr
         [ (toLowerCase headerKey = PATH_HEADER_KEY d,
            Fragments [[Msg ''derivationPath'' ''notValidHeaderKey'', Lit '':''],
                       [element_or (at_index deSerializedDerivationPath 0) (UNDEFINED d)]]),
           (parseInt (at_index (split (deSerializedDerivationPath ! 0) (SPLITTER d)) 1)
              = Some (PATH_PURPOSE d),
            Fragments [[Msg ''derivationPath'' ''notValidPurpouse'', Lit '':''],
                       [element_or (at_index deSerializedDerivationPath 0) (UNDEFINED d)]]),
           (coinType = Some (PATH_COIN_MAINNET d) \<or> coinType = Some (PATH_COIN_TESTNET d),
            Fragments [[Msg ''derivationPath'' ''notValidCoin'', Lit '':''],
                       [element_or (at_index deSerializedDerivationPath 1) (UNDEFINED d)]]),
           (MATCH_DIGITS d (deSerializedDerivationPath ! 2),
            Fragments [[Msg ''derivationPath'' ''notValidAccount'', Lit '':''],
                       [element_or (at_index deSerializedDerivationPath 2) (UNDEFINED d)]]),
           (list_all (\<lambda>truth. truth \<noteq> False)
              (map (\<lambda>v. MATCH_DIGITS d v) (split (deSerializedDerivationPath ! 3) (SPLITTER d))),
            Fragments [[Msg ''derivationPath'' ''notValidChangeIndex'', Lit '':''],
                       [element_or (at_index deSerializedDerivationPath 3) (UNDEFINED d)]]),
           (length (split (deSerializedDerivationPath ! 3) (SPLITTER d)) \<le> 2,
            Fragments [[Msg ''derivationPath'' ''notValidAccountIndex'', Lit '':''],
                       [element_or (at_index deSerializedDerivationPath 3) (UNDEFINED d)]]) ])"

text \<open>The message of the part-count assertion: the segments between two brackets.\<close>

definition notValidParts_message :: "string list \<Rightarrow> message" where
  "notValidParts_message deSerializedDerivationPath =
     Fragments ([[Msg ''derivationPath'' ''notValidParts'', Lit '': ['']]
                @ map (\<lambda>part. [Lit part]) deSerializedDerivationPath
                @ [[Lit '']'']])"

text \<open>
  The catch block around the split and the parse builds its message with a template
  literal of its own; when the conversion of the input throws there, that
  \<^verbatim>\<open>TypeError\<close> leaves the validator. The generic message is built after the rule
  array, when \<^verbatim>\<open>validatorGenerator\<close> is called.
\<close>

definition derivationPathValidator :: "defaults \<Rightarrow> jsval \<Rightarrow> thrown + bool" where
  "derivationPathValidator d derivationPath =
     (case call_split derivationPath (PATH_DELIMITER d) of
        Inl caughtError \<Rightarrow>
          (case interpolate_or derivationPath (UNDEFINED d) of
             Inl e \<Rightarrow> Inl e
           | Inr shown \<Rightarrow>
               Inl (Error (Text [Msg ''derivationPath'' ''notString'', Lit '': '', shown])))
      | Inr deSerializedDerivationPath \<Rightarrow>
          (let coinType = parseInt (at_index deSerializedDerivationPath 1) in
           case assertTruth (length deSerializedDerivationPath = 4)
                  (notValidParts_message deSerializedDerivationPath) of
             Inl e \<Rightarrow> Inl e
           | Inr ok \<Rightarrow>
               (case derivationPath_validationSequence d deSerializedDerivationPath coinType of
                  Inl e \<Rightarrow> Inl e
                | Inr validationSequence \<Rightarrow>
                    (case interpolate_or derivationPath (UNDEFINED d) of
                       Inl e \<Rightarrow> Inl e
                     | Inr shown \<Rightarrow>
                         validatorGenerator validationSequence
                           (Text [Msg ''derivationPath'' ''genericError'', Lit '': '',
                                  shown])))))"

subsection \<open>safeIntegerValidator\<close>

text \<open>
  \<^verbatim>\<open>integer >= 0\<close> converts its left operand to a number. The conversion of a string
  is the language's \<^verbatim>\<open>StringToNumber\<close>, taken as a parameter; null becomes 0, a
  boolean 0 or 1, and undefined and an ordinary object (through the text
  \<^verbatim>\<open>[object Object]\<close>) become NaN. On an object that cannot be converted the
  comparison would throw; the validator evaluates the template literal of its first
  message before the comparison and has thrown there, so the value given below for such
  an object is never used.
\<close>

fun ToNumber :: "(string \<Rightarrow> jsnumber) \<Rightarrow> jsval \<Rightarrow> jsnumber" where
  "ToNumber StringToNumber JUndefined = NaN"
| "ToNumber StringToNumber JNull = Finite 0"
| "ToNumber StringToNumber (JBoolean b) = Finite (if b then 1 else 0)"
| "ToNumber StringToNumber (JNumber n) = n"
| "ToNumber StringToNumber (JString s) = StringToNumber s"
| "ToNumber StringToNumber (JObject c) = NaN"

fun ge_zero :: "jsnumber \<Rightarrow> bool" where
  "ge_zero NaN = False"
| "ge_zero PosInfinity = True"
| "ge_zero NegInfinity = False"
| "ge_zero (Finite x) = (0 \<le> x)"

text \<open>
  \<^verbatim>\<open>Number.isSafeInteger\<close>: the value is a number, finite, integral, and of magnitude
  at most \<open>2^53 - 1\<close>.
\<close>

fun isSafeInteger :: "jsval \<Rightarrow> bool" where
  "isSafeInteger (JNumber (Finite x)) = (of_int \<lfloor>x\<rfloor> = x \<and> \<bar>x\<bar> \<le> 2 ^ 53 - 1)"
| "isSafeInteger v = False"

text \<open>
  Every message of the validator is a template literal that converts \<^verbatim>\<open>integer\<close>; the
  first of them is evaluated right after \<^verbatim>\<open>typeof integer\<close>, before any other
  expression, and the later ones convert the same value.
\<close>

definition safeIntegerValidator :: "(string \<Rightarrow> jsnumber) \<Rightarrow> jsval \<Rightarrow> thrown + bool" where
  "safeIntegerValidator StringToNumber integer =
     (case interpolate integer of
        Inl e \<Rightarrow> Inl e
      | Inr shown \<Rightarrow>
          validatorGenerator
            [ (typeof integer = ''number'',
               Text [Msg ''safeInteger'' ''notNumber'', Lit '': '', shown]),
              (ge_zero (ToNumber StringToNumber integer),
               Text [Msg ''safeInteger'' ''notPositive'', Lit '': '', shown]),
              (isSafeInteger integer,
               Text [Msg ''safeInteger'' ''notSafe'', Lit '': '', shown]) ]
            (Text [Msg ''safeInteger'' ''genericError'', Lit '': '', shown]))"

subsection \<open>addressValidator, hexSequenceValidator, messageValidator\<close>

text \<open>
  The expressions of all rules are evaluated while the array is built, before the runner
  sees it: \<^verbatim>\<open>address.length\<close> and \<^verbatim>\<open>address.match(...)\<close> are evaluated whatever
  \<^verbatim>\<open>typeof address\<close> is, and an exception they raise leaves the validator. So does
  the exception of a template literal that converts the input. The expressions and the
  messages are evaluated in the order of the source; each template literal of a validator
  converts the same value, so the first one decides.
\<close>

definition addressValidator :: "defaults \<Rightarrow> jsval \<Rightarrow> thrown + bool" where
  "addressValidator d address =
     (case get_length address of
        Inl e \<Rightarrow> Inl e
      | Inr len \<Rightarrow>
          (case interpolate_or address (UNDEFINED d) of
             Inl e \<Rightarrow> Inl e
           | Inr shown \<Rightarrow>
               (case call_match address (MATCH_ADDRESS d) of
                  Inl e \<Rightarrow> Inl e
                | Inr matched \<Rightarrow>
                    validatorGenerator
                      [ (typeof address = ''string'',
                         Text [Msg ''address'' ''notStringSequence'', Lit '': '',
                               ErrorStringOr address (UNDEFINED d)]),
                        (len = Some 40 \<or> len = Some 42,
                         Text [Msg ''address'' ''notLength'', Lit '': '', shown]),
                        (matched,
                         Text [Msg ''address'' ''notFormat'', Lit '': '', shown]) ]
                      (Text [Msg ''address'' ''genericError'', Lit '': '', shown]))))"

definition hexSequenceValidator :: "defaults \<Rightarrow> jsval \<Rightarrow> thrown + bool" where
  "hexSequenceValidator d hexSequence =
     (case call_match hexSequence (MATCH_HEX_STRING d) of
        Inl e \<Rightarrow> Inl e
      | Inr matched \<Rightarrow>
          (case interpolate_or hexSequence (UNDEFINED d) of
             Inl e \<Rightarrow> Inl e
           | Inr shown \<Rightarrow>
               (case get_length hexSequence of
                  Inl e \<Rightarrow> Inl e
                | Inr len \<Rightarrow>
                    validatorGenerator
                      [ (typeof hexSequence = ''string'',
                         Text [Msg ''hexSequence'' ''notStringSequence'', Lit '': '',
                               ErrorStringOr hexSequence (UNDEFINED d)]),
                        (matched,
                         Text [Msg ''hexSequence'' ''notFormat'', Lit '': '', shown]),
                        (case len of None \<Rightarrow> False | Some n \<Rightarrow> n \<le> 1024,
                         Text [Msg ''hexSequence'' ''tooBig'', Lit '': '', shown]) ]
                      (Text [Msg ''hexSequence'' ''genericError'', Lit '': '', shown]))))"

definition messageValidator :: "defaults \<Rightarrow> jsval \<Rightarrow> thrown + bool" where
  "messageValidator d string =
     (case get_length string of
        Inl e \<Rightarrow> Inl e
      | Inr len \<Rightarrow>
          (case interpolate_or string (UNDEFINED d) of
             Inl e \<Rightarrow> Inl e
           | Inr shown \<Rightarrow>
               validatorGenerator
                 [ (typeof string = ''string'',
                    Text [Msg ''message'' ''notString'', Lit '': '',
                          ErrorStringOr string (UNDEFINED d)]),
                   (case len of None \<Rightarrow> False | Some n \<Rightarrow> n \<le> 1024,
                    Text [Msg ''message'' ''tooBig'', Lit '': '', shown]) ]
                 (Text [Msg ''message'' ''genericError'', Lit '': '', shown])))"

section \<open>The library facade\<close>

text \<open>
  The default export of the facade module is built by \<^verbatim>\<open>Object.assign\<close> from an empty
  object, the object holding \<^verbatim>\<open>wallets\<close>, \<^verbatim>\<open>utils\<close> and \<^verbatim>\<open>about\<close>, and either the
  default export of \<^verbatim>\<open>./debug\<close> or an empty object. An object is the map from its
  property names to their values; \<^verbatim>\<open>Object.assign\<close> copies the properties of each
  source onto the target in turn, a later source overwriting an earlier one. The flag
  \<^verbatim>\<open>ENV\<close>, the debug export and the package's name and version are imported and taken
  as parameters.
\<close>

datatype export = Imported string | StringValue string | Object "(string \<times> export) list"

definition Object_assign ::
  "(string \<rightharpoonup> export) \<Rightarrow> (string \<rightharpoonup> export) list \<Rightarrow> (string \<rightharpoonup> export)" where
  "Object_assign target sources = foldl (++) target sources"

definition colonyWallet ::
  "string \<Rightarrow> (string \<rightharpoonup> export) \<Rightarrow> string \<Rightarrow> string \<Rightarrow> (string \<rightharpoonup> export)" where
  "colonyWallet ENV debug name version =
     Object_assign Map.empty
       [ [''wallets'' \<mapsto> Object [(''software'', Imported ''software''),
                                 (''trezor'', Imported ''trezor''),
                                 (''ledger'', Imported ''ledger'')],
          ''utils'' \<mapsto> Object [(''bigNumber'', Imported ''bigNumber''),
                               (''getRandomValues'', Imported ''getRandomValues'')],
          ''about'' \<mapsto> Object [(''name'', StringValue name),
                               (''version'', StringValue version),
                               (''environment'', StringValue ENV)]],
         if ENV = ''development'' then debug else Map.empty ]"

section \<open>Statements of the specification, for comparison\<close>

text \<open>
  The specification's wording of the not-a-string failure: the message names the original
  input, or the placeholder when the input is undefined or null.
\<close>

definition notString_message_as_specified :: "defaults \<Rightarrow> jsval \<Rightarrow> message" where
  "notString_message_as_specified d derivationPath =
     Text [Msg ''derivationPath'' ''notString'', Lit '': '',
           if derivationPath = JUndefined \<or> derivationPath = JNull
           then Lit (UNDEFINED d) else Val derivationPath]"

text \<open>
  The specification's order of the hex-sequence checks on a string: the type check, then
  the size bound, then the pattern.
\<close>

definition hexSequence_checks_as_specified :: "defaults \<Rightarrow> string \<Rightarrow> thrown + bool" where
  "hexSequence_checks_as_specified d s =
     validatorGenerator
       [ (typeof (JString s) = ''string'',
          Text [Msg ''hexSequence'' ''notStringSequence'', Lit '': '',
                ErrorStringOr (JString s) (UNDEFINED d)]),
         (length s \<le> 1024,
          Text [Msg ''hexSequence'' ''tooBig'', Lit '': '',
                value_or (JString s) (UNDEFINED d)]),
         (MATCH_HEX_STRING d s,
          Text [Msg ''hexSequence'' ''notFormat'', Lit '': '',
                value_or (JString s) (UNDEFINED d)]) ]
       (Text [Msg ''hexSequence'' ''genericError'', Lit '': '',
              value_or (JString s) (UNDEFINED d)])"

text \<open>
  The specification's wording of the facade's condition: the flag indicates a
  non-production build.
\<close>

definition non_production_build :: "string \<Rightarrow> bool" where
  "non_production_build ENV = (ENV \<noteq> ''production'')"

text \<open>
  The strings of the forms \<^verbatim>\<open>m/44'/60'/0'/0\<close> and \<^verbatim>\<open>m/44'/1'/0'/0\<close>: a header,
  the purpose 44, a coin type, an account and the change/index groups, written with the
  path's punctuation.
\<close>

definition path_string :: "string \<Rightarrow> string \<Rightarrow> string \<Rightarrow> string list \<Rightarrow> string" where
  "path_string header coin account groups =
     header @ ''/44'' @ [CHR 0x27, CHR ''/''] @ coin @ [CHR 0x27, CHR ''/'']
       @ account @ [CHR 0x27, CHR ''/''] @ join ''/'' groups"

text \<open>
  Such a string conforms when the header is \<^verbatim>\<open>m\<close> in either case, the coin type is
  written 60 or 1, and the account and every change/index group is a non-empty run of
  decimal digits, with at least one group.
\<close>

definition conforming_path :: "string \<Rightarrow> string \<Rightarrow> string \<Rightarrow> string list \<Rightarrow> bool" where
  "conforming_path header coin account groups =
     (header \<in> {''m'', ''M''} \<and> coin \<in> {''60'', ''1''} \<and> DIGITS_pattern account \<and>
      groups \<noteq> [] \<and> list_all DIGITS_pattern groups)"

section \<open>Evaluation lemmas\<close>

lemmas runner_simps =
  validatorGenerator_def assertTruth_def value_or_def interpolate_def interpolate_or_def

lemma interpolate_or_string [simp]:
  "interpolate_or (JString s) placeholder = Inr (value_or (JString s) placeholder)"
  by (simp add: interpolate_or_def)

section \<open>Splitting and joining\<close>

lemma split_from_segment:
  "sep \<noteq> [] \<Longrightarrow> hd sep \<notin> set s \<Longrightarrow>
   split_from sep acc (s @ sep @ rest) = (acc @ s) # split_from sep [] rest"
proof (induction s arbitrary: acc)
  case Nil
  then show ?case by (cases sep) simp_all
next
  case (Cons a s)
  then have "\<not> prefix sep (a # s @ sep @ rest)"
    by (cases sep) auto
  with Cons show ?case by simp
qed

lemma split_from_last:
  "sep \<noteq> [] \<Longrightarrow> hd sep \<notin> set s \<Longrightarrow> split_from sep acc s = [acc @ s]"
proof (induction s arbitrary: acc)
  case Nil
  then show ?case by simp
next
  case (Cons a s)
  then have "\<not> prefix sep (a # s)"
    by (cases sep) auto
  with Cons show ?case by simp
qed

lemma split_from_join:
  "sep \<noteq> [] \<Longrightarrow> \<forall>g \<in> set (g0 # gs). hd sep \<notin> set g \<Longrightarrow>
   split_from sep [] (join sep (g0 # gs)) = g0 # gs"
proof (induction gs arbitrary: g0)
  case Nil
  then show ?case by (simp add: split_from_last)
next
  case (Cons g gs)
  then show ?case by (simp add: split_from_segment)
qed

lemma set_join: "set (join sep gs) \<subseteq> set sep \<union> \<Union> (set ` set gs)"
  by (induction sep gs rule: join.induct) auto

section \<open>The segments of a conforming path\<close>

lemma is_digit_not_quote: "\<not> is_digit (CHR 0x27)"
  by (simp add: is_digit_def)

lemma is_digit_not_slash: "\<not> is_digit (CHR ''/'')"
  by (simp add: is_digit_def)

lemma digits_no_quote: "DIGITS_pattern s \<Longrightarrow> CHR 0x27 \<notin> set s"
  using is_digit_not_quote by (auto simp: DIGITS_pattern_def list_all_iff)

lemma digits_no_slash: "DIGITS_pattern s \<Longrightarrow> CHR ''/'' \<notin> set s"
  using is_digit_not_slash by (auto simp: DIGITS_pattern_def list_all_iff)

lemma join_digits_no_quote:
  assumes "list_all DIGITS_pattern groups"
  shows "CHR 0x27 \<notin> set (join ''/'' groups)"
proof
  assume "CHR 0x27 \<in> set (join ''/'' groups)"
  then have "CHR 0x27 \<in> set ''/'' \<union> \<Union> (set ` set groups)"
    using set_join [of "''/''" groups] by blast
  then obtain g where "g \<in> set groups" "CHR 0x27 \<in> set g"
    by auto
  then show False
    using assms digits_no_quote by (auto simp: list_all_iff)
qed

lemma join_nonempty: "groups \<noteq> [] \<Longrightarrow> hd groups \<noteq> [] \<Longrightarrow> join sep groups \<noteq> []"
  by (induction sep groups rule: join.induct) auto
lemma path_segments:
  assumes "conforming_path header coin account groups"
  shows "split (path_string header coin account groups) [CHR 0x27, CHR ''/'']
           = [header @ ''/44'', coin, account, join ''/'' groups]"
proof -
  have h: "CHR 0x27 \<notin> set (header @ ''/44'')"
    using assms by (auto simp: conforming_path_def)
  have c: "CHR 0x27 \<notin> set coin"
    using assms by (auto simp: conforming_path_def)
  have a: "CHR 0x27 \<notin> set account"
    using assms by (simp add: conforming_path_def digits_no_quote)
  have g: "CHR 0x27 \<notin> set (join ''/'' groups)"
    using assms by (simp add: conforming_path_def join_digits_no_quote)
  have "split_from [CHR 0x27, CHR ''/''] []
          ((header @ ''/44'') @ [CHR 0x27, CHR ''/''] @ coin @ [CHR 0x27, CHR ''/'']
             @ account @ [CHR 0x27, CHR ''/''] @ join ''/'' groups)
        = [header @ ''/44'', coin, account, join ''/'' groups]"
    using h c a g
    by (simp only: split_from_segment [where sep = "[CHR 0x27, CHR ''/'']"]
          split_from_last [where sep = "[CHR 0x27, CHR ''/'']"] list.sel
          append_Nil not_Cons_self2 simp_thms list.simps)
  then show ?thesis
    by (simp add: split_def path_string_def)
qed

lemma toLowerCase_M: "toLowerCase ''M'' = ''m''"
  by code_simp

lemma toLowerCase_m: "toLowerCase ''m'' = ''m''"
  by code_simp

lemma parseInt_44: "parseInt (Some ''44'') = Some 44"
  by (simp add: parseInt_def parseInt_string_def is_space_def is_digit_def digit_value_def)

lemma parseInt_60: "parseInt (Some ''60'') = Some 60"
  by (simp add: parseInt_def parseInt_string_def is_space_def is_digit_def digit_value_def)

lemma parseInt_1: "parseInt (Some ''1'') = Some 1"
  by (simp add: parseInt_def parseInt_string_def is_space_def is_digit_def digit_value_def)

lemma parseInt_undefined: "parseInt None = None"
  by (simp add: parseInt_def parseInt_string_def is_space_def is_digit_def digit_value_def)

lemma header_split:
  "header \<in> {''m'', ''M''} \<Longrightarrow> split (header @ ''/44'') ''/'' = [header, ''44'']"
  by (auto simp: split_def)

lemma groups_split:
  assumes "groups \<noteq> []" "list_all DIGITS_pattern groups"
  shows "split (join ''/'' groups) ''/'' = groups"
proof -
  obtain g0 gs where "groups = g0 # gs"
    using assms(1) by (cases groups) auto
  moreover have "\<forall>g \<in> set groups. hd ''/'' \<notin> set g"
    using assms(2) digits_no_slash by (auto simp: list_all_iff)
  ultimately show ?thesis
    using split_from_join [of "''/''" g0 gs] by (simp add: split_def)
qed


lemma join_groups_nonempty:
  assumes "groups \<noteq> []" "list_all DIGITS_pattern groups"
  shows "join ''/'' groups \<noteq> []"
proof -
  have "hd groups \<noteq> []"
    using assms by (cases groups) (auto simp: DIGITS_pattern_def)
  with assms(1) show ?thesis by (rule join_nonempty)
qed

lemma conforming_sequence:
  assumes constants:
    "SPLITTER d = ''/''" "PATH_HEADER_KEY d = ''m''" "PATH_PURPOSE d = 44"
    "PATH_COIN_MAINNET d = 60" "PATH_COIN_TESTNET d = 1"
    "\<forall>s. DIGITS_pattern s \<longrightarrow> MATCH_DIGITS d s"
  and conf: "conforming_path header coin account groups"
  shows "derivationPath_validationSequence d
           [header @ ''/44'', coin, account, join ''/'' groups] (parseInt (Some coin))
         = Inr [ (True, Fragments [[Msg ''derivationPath'' ''notValidHeaderKey'', Lit '':''],
                                   [Lit (header @ ''/44'')]]),
                 (True, Fragments [[Msg ''derivationPath'' ''notValidPurpouse'', Lit '':''],
                                   [Lit (header @ ''/44'')]]),
                 (True, Fragments [[Msg ''derivationPath'' ''notValidCoin'', Lit '':''],
                                   [Lit coin]]),
                 (True, Fragments [[Msg ''derivationPath'' ''notValidAccount'', Lit '':''],
                                   [Lit account]]),
                 (True, Fragments [[Msg ''derivationPath'' ''notValidChangeIndex'', Lit '':''],
                                   [Lit (join ''/'' groups)]]),
                 (length groups \<le> 2,
                  Fragments [[Msg ''derivationPath'' ''notValidAccountIndex'', Lit '':''],
                             [Lit (join ''/'' groups)]]) ]"
proof -
  have hs: "split (header @ ''/44'') ''/'' = [header, ''44'']"
    using conf by (simp add: conforming_path_def header_split)
  have lower: "toLowerCase header = ''m''"
    using conf toLowerCase_M toLowerCase_m by (auto simp: conforming_path_def)
  have coin: "parseInt (Some coin) = Some 60 \<or> parseInt (Some coin) = Some 1"
    using conf parseInt_60 parseInt_1 by (auto simp: conforming_path_def)
  have coin_ne: "coin \<noteq> []"
    using conf by (auto simp: conforming_path_def)
  have acct: "MATCH_DIGITS d account" "account \<noteq> []"
    using conf constants(6) by (auto simp: conforming_path_def DIGITS_pattern_def)
  have gs: "split (join ''/'' groups) ''/'' = groups"
    using conf by (simp add: conforming_path_def groups_split)
  have all: "list_all (\<lambda>truth. truth \<noteq> False) (map (\<lambda>v. MATCH_DIGITS d v) groups)"
    using conf constants(6) by (auto simp: conforming_path_def list_all_iff)
  have ne: "join ''/'' groups \<noteq> []"
    using conf by (simp add: conforming_path_def join_groups_nonempty)
  show ?thesis
    using coin all
    by (simp add: derivationPath_validationSequence_def constants(1-5) hs lower acct gs ne
          coin_ne at_index_def element_or_def parseInt_44)
qed

section \<open>The patterns on the example strings\<close>

lemma hex_f: "list_all is_hex_digit (replicate n (CHR ''f''))"
  by (simp add: list_all_iff is_hex_digit_def)

lemma hex_a: "list_all is_hex_digit (replicate n (CHR ''a''))"
  by (simp add: list_all_iff is_hex_digit_def)

lemma not_hex_g: "0 < n \<Longrightarrow> \<not> list_all is_hex_digit (replicate n (CHR ''g''))"
  by (simp add: list_all_iff is_hex_digit_def)

lemma address_a: "ADDRESS_pattern (''0x'' @ replicate 40 (CHR ''a''))"
  by (simp add: ADDRESS_pattern_def hex_a)

lemma address_g: "\<not> ADDRESS_pattern (''0x'' @ replicate 40 (CHR ''g''))"
  by (simp add: ADDRESS_pattern_def not_hex_g)

lemma hex_string_f: "HEX_STRING_pattern (''0x'' @ replicate n (CHR ''f''))"
  by (simp add: HEX_STRING_pattern_def hex_f)

lemma hex_string_g: "\<not> HEX_STRING_pattern (replicate 1025 (CHR ''g''))"
  by (simp add: HEX_STRING_pattern_def not_hex_g)

section \<open>Non-string inputs of the string validators\<close>

text \<open>
  The address and hex-sequence validators call \<^verbatim>\<open>match\<close> on their input while the rule
  array is built, and all three read \<^verbatim>\<open>length\<close>: on a number the call throws, and on
  undefined or null the property read throws, before the runner sees the type check.
\<close>

lemma non_string_TypeError:
  "addressValidator d (JNumber n) = Inl TypeError"
  "addressValidator d JUndefined = Inl TypeError"
  "hexSequenceValidator d (JNumber n) = Inl TypeError"
  "hexSequenceValidator d JNull = Inl TypeError"
  "messageValidator d JNull = Inl TypeError"
  by (simp_all add: addressValidator_def hexSequenceValidator_def messageValidator_def
        interpolate_or_def)

text \<open>
  On an object that cannot be converted to a string the template literal of a message
  throws: in the catch block of \<^verbatim>\<open>derivationPathValidator\<close>, and while the rule array of
  the other validators is built.
\<close>

lemma unconvertible_object_TypeError:
  "derivationPathValidator d (JObject False) = Inl TypeError"
  "safeIntegerValidator N (JObject False) = Inl TypeError"
  "addressValidator d (JObject False) = Inl TypeError"
  "hexSequenceValidator d (JObject False) = Inl TypeError"
  "messageValidator d (JObject False) = Inl TypeError"
  by (simp_all add: derivationPathValidator_def safeIntegerValidator_def addressValidator_def
        hexSequenceValidator_def messageValidator_def interpolate_def interpolate_or_def)

text \<open>
  With \<^verbatim>\<open>/\<close> as the delimiter the path \<^verbatim>\<open>m/44'/60'/0'/0\<close> has five segments and is
  rejected by the part-count assertion.
\<close>

lemma slash_delimiter_five_segments:
  "length (split ''m/44'/60'/0'/0'' ''/'') = 5"
  "derivationPathValidator (trezor_defaults\<lparr>PATH_DELIMITER := ''/''\<rparr>) (JString ''m/44'/60'/0'/0'')
     \<noteq> Inr True"
  by (simp_all add: split_def derivationPathValidator_def assertTruth_def)

section \<open>safeIntegerValidator\<close>

text \<open>
  Claim C5. \<^verbatim>\<open>safeIntegerValidator\<close> returns true exactly on the number primitives that are
  non-negative safe integers. Its three checks run in order and the first that fails gives
  the error: a value that is not a number primitive (undefined, null, a boolean, a string
  or an ordinary object) fails with \<^verbatim>\<open>notNumber\<close>, a number
  that is not at least 0 with \<^verbatim>\<open>notPositive\<close>, and a non-negative number that is not a
  safe integer with \<^verbatim>\<open>notSafe\<close>. So 9007199254740991 is accepted, 9007199254740992 fails
  with \<^verbatim>\<open>notSafe\<close>, -1 with \<^verbatim>\<open>notPositive\<close> and the string "5" with \<^verbatim>\<open>notNumber\<close>.
\<close>

theorem safeIntegerValidator_accepts_exactly:
  "(safeIntegerValidator N v = Inr True \<longleftrightarrow>
      (\<exists>x. v = JNumber (Finite x) \<and> 0 \<le> x \<and> x \<in> \<int> \<and> x \<le> 2 ^ 53 - 1))
   \<and> (typeof v \<noteq> ''number'' \<and> converts v \<longrightarrow>
        safeIntegerValidator N v =
          Inl (Error (Text [Msg ''safeInteger'' ''notNumber'', Lit '': '', Val v])))
   \<and> (typeof v = ''number'' \<and> \<not> ge_zero (ToNumber N v) \<longrightarrow>
        safeIntegerValidator N v =
          Inl (Error (Text [Msg ''safeInteger'' ''notPositive'', Lit '': '', Val v])))
   \<and> (typeof v = ''number'' \<and> ge_zero (ToNumber N v) \<and> \<not> isSafeInteger v \<longrightarrow>
        safeIntegerValidator N v =
          Inl (Error (Text [Msg ''safeInteger'' ''notSafe'', Lit '': '', Val v])))
   \<and> safeIntegerValidator N (JNumber (Finite 9007199254740991)) = Inr True
   \<and> safeIntegerValidator N (JNumber (Finite 9007199254740992)) =
        Inl (Error (Text [Msg ''safeInteger'' ''notSafe'', Lit '': '',
                          Val (JNumber (Finite 9007199254740992))]))
   \<and> safeIntegerValidator N (JNumber (Finite (- 1))) =
        Inl (Error (Text [Msg ''safeInteger'' ''notPositive'', Lit '': '',
                          Val (JNumber (Finite (- 1)))]))
   \<and> safeIntegerValidator N (JString ''5'') =
        Inl (Error (Text [Msg ''safeInteger'' ''notNumber'', Lit '': '', Val (JString ''5'')]))"
proof -
  have accepts: "safeIntegerValidator N v = Inr True \<longleftrightarrow>
      (\<exists>x. v = JNumber (Finite x) \<and> 0 \<le> x \<and> x \<in> \<int> \<and> x \<le> 2 ^ 53 - 1)"
  proof (cases v)
    case (JNumber n)
    then show ?thesis
      by (cases n)
         (auto simp: safeIntegerValidator_def runner_simps elim!: Ints_cases)
  qed (simp_all add: safeIntegerValidator_def runner_simps)
  have first: "typeof v \<noteq> ''number'' \<and> converts v \<longrightarrow>
        safeIntegerValidator N v =
          Inl (Error (Text [Msg ''safeInteger'' ''notNumber'', Lit '': '', Val v]))"
    by (simp add: safeIntegerValidator_def runner_simps)
  have second: "typeof v = ''number'' \<and> \<not> ge_zero (ToNumber N v) \<longrightarrow>
        safeIntegerValidator N v =
          Inl (Error (Text [Msg ''safeInteger'' ''notPositive'', Lit '': '', Val v]))"
    by (cases v) (simp_all add: safeIntegerValidator_def runner_simps)
  have third: "typeof v = ''number'' \<and> ge_zero (ToNumber N v) \<and> \<not> isSafeInteger v \<longrightarrow>
        safeIntegerValidator N v =
          Inl (Error (Text [Msg ''safeInteger'' ''notSafe'', Lit '': '', Val v]))"
    by (cases v) (simp_all add: safeIntegerValidator_def runner_simps)
  have examples:
    "safeIntegerValidator N (JNumber (Finite 9007199254740991)) = Inr True"
    "safeIntegerValidator N (JNumber (Finite 9007199254740992)) =
        Inl (Error (Text [Msg ''safeInteger'' ''notSafe'', Lit '': '',
                          Val (JNumber (Finite 9007199254740992))]))"
    "safeIntegerValidator N (JNumber (Finite (- 1))) =
        Inl (Error (Text [Msg ''safeInteger'' ''notPositive'', Lit '': '',
                          Val (JNumber (Finite (- 1)))]))"
    "safeIntegerValidator N (JString ''5'') =
        Inl (Error (Text [Msg ''safeInteger'' ''notNumber'', Lit '': '', Val (JString ''5'')]))"
    by (simp_all add: safeIntegerValidator_def runner_simps)
  from accepts first second third examples show ?thesis
    by blast
qed

theorem safeIntegerValidator_accepts_exactly_witness:
  "safeIntegerValidator (\<lambda>s. NaN) (JNumber (Finite 7)) = Inr True
   \<and> safeIntegerValidator (\<lambda>s. NaN) (JBoolean True) =
       Inl (Error (Text [Msg ''safeInteger'' ''notNumber'', Lit '': '', Val (JBoolean True)]))
   \<and> safeIntegerValidator (\<lambda>s. NaN) (JNumber NegInfinity) =
       Inl (Error (Text [Msg ''safeInteger'' ''notPositive'', Lit '': '',
                         Val (JNumber NegInfinity)]))
   \<and> safeIntegerValidator (\<lambda>s. NaN) (JNumber (Finite (1 / 2))) =
       Inl (Error (Text [Msg ''safeInteger'' ''notSafe'', Lit '': '',
                         Val (JNumber (Finite (1 / 2)))]))"
  using safeIntegerValidator_accepts_exactly [of "\<lambda>s. NaN" "JNumber (Finite 7)"]
        safeIntegerValidator_accepts_exactly [of "\<lambda>s. NaN" "JBoolean True"]
        safeIntegerValidator_accepts_exactly [of "\<lambda>s. NaN" "JNumber NegInfinity"]
        safeIntegerValidator_accepts_exactly [of "\<lambda>s. NaN" "JNumber (Finite (1 / 2))"]
  by simp

text \<open>
  Claim C10. On NaN, a number primitive, \<^verbatim>\<open>safeIntegerValidator\<close> passes the type check
  and fails at the non-negativity rule, since \<^verbatim>\<open>NaN >= 0\<close> is false: the error raised is
  \<^verbatim>\<open>notPositive\<close>, neither \<^verbatim>\<open>notNumber\<close> nor \<^verbatim>\<open>notSafe\<close>.
\<close>

theorem safeIntegerValidator_NaN_notPositive:
  "typeof (JNumber NaN) = ''number''
   \<and> ge_zero (ToNumber N (JNumber NaN)) = False
   \<and> safeIntegerValidator N (JNumber NaN) =
       Inl (Error (Text [Msg ''safeInteger'' ''notPositive'', Lit '': '', Val (JNumber NaN)]))"
  by (simp add: safeIntegerValidator_def runner_simps)

theorem safeIntegerValidator_NaN_notPositive_witness:
  "safeIntegerValidator (\<lambda>s. NaN) (JNumber NaN) =
     Inl (Error (Text [Msg ''safeInteger'' ''notPositive'', Lit '': '', Val (JNumber NaN)]))"
  using safeIntegerValidator_NaN_notPositive [of "\<lambda>s. NaN"]
  by simp

section \<open>messageValidator\<close>

text \<open>
  Claim C8. \<^verbatim>\<open>messageValidator\<close> returns true for every string of at most 1024
  characters, whatever its content, and fails with \<^verbatim>\<open>tooBig\<close> for every string of 1025
  or more characters; no pattern of \<^verbatim>\<open>MATCH\<close> takes part.
\<close>

theorem messageValidator_length_only:
  "(length s \<le> 1024 \<longrightarrow> messageValidator d (JString s) = Inr True)
   \<and> (1025 \<le> length s \<longrightarrow>
        messageValidator d (JString s) =
          Inl (Error (Text [Msg ''message'' ''tooBig'', Lit '': '', Val (JString s)])))"
  by (auto simp: messageValidator_def runner_simps)

theorem messageValidator_length_only_witness:
  "messageValidator trezor_defaults (JString ''hello'') = Inr True
   \<and> messageValidator trezor_defaults (JString (replicate 1025 (CHR ''a''))) =
       Inl (Error (Text [Msg ''message'' ''tooBig'', Lit '': '',
                         Val (JString (replicate 1025 (CHR ''a'')))]))"
  using messageValidator_length_only [of "''hello''" trezor_defaults]
        messageValidator_length_only [of "replicate 1025 (CHR ''a'')" trezor_defaults]
  by simp

section \<open>derivationPathValidator\<close>

text \<open>
  Claim C1. With the delimiter \<^verbatim>\<open>'/\<close>, the splitter \<^verbatim>\<open>/\<close>, the header \<^verbatim>\<open>m\<close>, the
  purpose 44, the coin types 60 and 1 and a digits pattern that accepts every non-empty run
  of digits, \<^verbatim>\<open>derivationPathValidator\<close> returns true on every conforming path string
  with one or two change/index groups (the forms \<^verbatim>\<open>m/44'/60'/0'/0\<close> and
  \<^verbatim>\<open>m/44'/1'/0'/0\<close>, header in either case), and the split of such a string has exactly
  four segments. For any constants, a string whose split does not have exactly four
  segments fails with the \<^verbatim>\<open>notValidParts\<close> message listing the segments.
\<close>

theorem derivationPathValidator_accepts_conforming:
  assumes constants:
    "PATH_DELIMITER d = [CHR 0x27, CHR ''/'']"
    "SPLITTER d = ''/''" "PATH_HEADER_KEY d = ''m''" "PATH_PURPOSE d = 44"
    "PATH_COIN_MAINNET d = 60" "PATH_COIN_TESTNET d = 1"
    "\<forall>s. DIGITS_pattern s \<longrightarrow> MATCH_DIGITS d s"
  shows
    "(conforming_path header coin account groups \<and> length groups \<le> 2 \<longrightarrow>
        length (split (path_string header coin account groups) (PATH_DELIMITER d)) = 4 \<and>
        derivationPathValidator d (JString (path_string header coin account groups)) = Inr True)
     \<and> (length (split p (PATH_DELIMITER d)) \<noteq> 4 \<longrightarrow>
          derivationPathValidator d (JString p) =
            Inl (Error (notValidParts_message (split p (PATH_DELIMITER d)))))"
proof (intro conjI impI)
  assume conf: "conforming_path header coin account groups \<and> length groups \<le> 2"
  then have segs: "split (path_string header coin account groups) (PATH_DELIMITER d)
                     = [header @ ''/44'', coin, account, join ''/'' groups]"
    by (simp add: constants(1) path_segments)
  then show "length (split (path_string header coin account groups) (PATH_DELIMITER d)) = 4"
    by simp
  show "derivationPathValidator d (JString (path_string header coin account groups)) = Inr True"
    using conf conforming_sequence [OF constants(2-7), of header coin account groups]
    by (simp add: derivationPathValidator_def segs at_index_def runner_simps)
next
  assume "length (split p (PATH_DELIMITER d)) \<noteq> 4"
  then show "derivationPathValidator d (JString p) =
               Inl (Error (notValidParts_message (split p (PATH_DELIMITER d))))"
    by (simp add: derivationPathValidator_def assertTruth_def)
qed

theorem derivationPathValidator_accepts_conforming_witness:
  "derivationPathValidator trezor_defaults (JString ''m/44'/60'/0'/0'') = Inr True
   \<and> derivationPathValidator trezor_defaults (JString ''M/44'/1'/0'/0/7'') = Inr True
   \<and> derivationPathValidator trezor_defaults (JString ''m/44'/60'') =
       Inl (Error (Fragments [[Msg ''derivationPath'' ''notValidParts'', Lit '': [''],
                              [Lit ''m/44''], [Lit ''60''], [Lit '']'']]))"
proof -
  have constants:
    "PATH_DELIMITER trezor_defaults = [CHR 0x27, CHR ''/'']"
    "SPLITTER trezor_defaults = ''/''" "PATH_HEADER_KEY trezor_defaults = ''m''"
    "PATH_PURPOSE trezor_defaults = 44"
    "PATH_COIN_MAINNET trezor_defaults = 60" "PATH_COIN_TESTNET trezor_defaults = 1"
    "\<forall>s. DIGITS_pattern s \<longrightarrow> MATCH_DIGITS trezor_defaults s"
    by (simp_all add: trezor_defaults_def)
  have mainnet: "conforming_path ''m'' ''60'' ''0'' [''0''] \<and> length [''0''] \<le> 2"
    by (simp add: conforming_path_def DIGITS_pattern_def is_digit_def)
  have testnet: "conforming_path ''M'' ''1'' ''0'' [''0'', ''7''] \<and> length [''0'', ''7''] \<le> 2"
    by (simp add: conforming_path_def DIGITS_pattern_def is_digit_def)
  have short: "split ''m/44'/60'' [CHR 0x27, CHR ''/''] = [''m/44'', ''60'']"
    by (simp add: split_def)
  have strings:
    "path_string ''m'' ''60'' ''0'' [''0''] = ''m/44'/60'/0'/0''"
    "path_string ''M'' ''1'' ''0'' [''0'', ''7''] = ''M/44'/1'/0'/0/7''"
    by (simp_all add: path_string_def)
  show ?thesis
    using derivationPathValidator_accepts_conforming
            [OF constants, of "''m''" "''60''" "''0''" "[''0'']" "''m/44'/60''"]
          derivationPathValidator_accepts_conforming
            [OF constants, of "''M''" "''1''" "''0''" "[''0'', ''7'']" "''m/44'/60''"]
          mainnet testnet
    by (simp add: strings short constants(1) notValidParts_message_def)
qed

text \<open>
  Claim C7. Under the same constants, a path string that conforms in its header, purpose,
  coin type and account and has three or more digit-only change/index groups (such as
  \<^verbatim>\<open>m/44'/60'/0'/0/1/2\<close>) fails with the \<^verbatim>\<open>notValidAccountIndex\<close> message: the
  sub-parts of segment 3 are those groups, the all-digits rule on them passes, and the
  rule of at most two sub-parts is the one that fails.
\<close>

theorem derivationPathValidator_too_many_indices:
  assumes constants:
    "PATH_DELIMITER d = [CHR 0x27, CHR ''/'']"
    "SPLITTER d = ''/''" "PATH_HEADER_KEY d = ''m''" "PATH_PURPOSE d = 44"
    "PATH_COIN_MAINNET d = 60" "PATH_COIN_TESTNET d = 1"
    "\<forall>s. DIGITS_pattern s \<longrightarrow> MATCH_DIGITS d s"
  and conf: "conforming_path header coin account groups"
  and many: "3 \<le> length groups"
  shows
    "split (split (path_string header coin account groups) (PATH_DELIMITER d) ! 3) (SPLITTER d)
       = groups
     \<and> list_all (MATCH_DIGITS d) groups
     \<and> derivationPathValidator d (JString (path_string header coin account groups)) =
         Inl (Error (Fragments [[Msg ''derivationPath'' ''notValidAccountIndex'', Lit '':''],
                                [Lit (join ''/'' groups)]]))"
proof -
  have segs: "split (path_string header coin account groups) (PATH_DELIMITER d)
                = [header @ ''/44'', coin, account, join ''/'' groups]"
    using conf by (simp add: constants(1) path_segments)
  have gs: "split (join ''/'' groups) ''/'' = groups"
    using conf by (simp add: conforming_path_def groups_split)
  have digits: "list_all (MATCH_DIGITS d) groups"
    using conf constants(7) by (auto simp: conforming_path_def list_all_iff)
  have fails: "derivationPathValidator d (JString (path_string header coin account groups)) =
         Inl (Error (Fragments [[Msg ''derivationPath'' ''notValidAccountIndex'', Lit '':''],
                                [Lit (join ''/'' groups)]]))"
    using many conforming_sequence [OF constants(2-7) conf]
    by (simp add: derivationPathValidator_def segs at_index_def runner_simps)
  from segs gs digits fails show ?thesis
    by (simp add: constants(2))
qed

theorem derivationPathValidator_too_many_indices_witness:
  "derivationPathValidator trezor_defaults (JString ''m/44'/60'/0'/0/1/2'') =
     Inl (Error (Fragments [[Msg ''derivationPath'' ''notValidAccountIndex'', Lit '':''],
                            [Lit ''0/1/2'']]))"
proof -
  have constants:
    "PATH_DELIMITER trezor_defaults = [CHR 0x27, CHR ''/'']"
    "SPLITTER trezor_defaults = ''/''" "PATH_HEADER_KEY trezor_defaults = ''m''"
    "PATH_PURPOSE trezor_defaults = 44"
    "PATH_COIN_MAINNET trezor_defaults = 60" "PATH_COIN_TESTNET trezor_defaults = 1"
    "\<forall>s. DIGITS_pattern s \<longrightarrow> MATCH_DIGITS trezor_defaults s"
    by (simp_all add: trezor_defaults_def)
  have conf: "conforming_path ''m'' ''60'' ''0'' [''0'', ''1'', ''2'']"
    by (simp add: conforming_path_def DIGITS_pattern_def is_digit_def)
  have many: "3 \<le> length [''0'', ''1'', ''2'']"
    by simp
  have string: "path_string ''m'' ''60'' ''0'' [''0'', ''1'', ''2''] = ''m/44'/60'/0'/0/1/2''"
    by (simp add: path_string_def)
  show ?thesis
    using derivationPathValidator_too_many_indices [OF constants conf many]
    by (simp add: string)
qed

text \<open>
  Claim C2, as amended. On every input that is not a string and whose conversion to a
  string does not throw (undefined, null, a boolean, a number or an ordinary object) the
  \<^verbatim>\<open>TypeError\<close> of the split is caught and \<^verbatim>\<open>derivationPathValidator\<close> throws the
  \<^verbatim>\<open>notString\<close> error, whose message names the input when it is truthy and the
  placeholder \<^verbatim>\<open>UNDEFINED\<close> when it is falsy (undefined, null, false, 0 and NaN).
\<close>

theorem derivationPathValidator_non_string:
  "typeof v \<noteq> ''string'' \<and> converts v \<longrightarrow>
     derivationPathValidator d v =
       Inl (Error (Text [Msg ''derivationPath'' ''notString'', Lit '': '',
                         if truthy v then Val v else Lit (UNDEFINED d)]))"
proof (cases v)
  case (JString s)
  then show ?thesis by simp
next
  case (JObject c)
  then show ?thesis
    by (simp add: derivationPathValidator_def interpolate_or_def value_or_def)
qed (simp_all add: derivationPathValidator_def interpolate_or_def value_or_def)

theorem derivationPathValidator_non_string_witness:
  "derivationPathValidator trezor_defaults (JNumber (Finite 5)) =
     Inl (Error (Text [Msg ''derivationPath'' ''notString'', Lit '': '', Val (JNumber (Finite 5))]))
   \<and> derivationPathValidator trezor_defaults JUndefined =
     Inl (Error (Text [Msg ''derivationPath'' ''notString'', Lit '': '', Lit ''undefined'']))
   \<and> derivationPathValidator trezor_defaults JNull =
     Inl (Error (Text [Msg ''derivationPath'' ''notString'', Lit '': '', Lit ''undefined'']))
   \<and> derivationPathValidator trezor_defaults (JObject True) =
     Inl (Error (Text [Msg ''derivationPath'' ''notString'', Lit '': '', Val (JObject True)]))"
  using derivationPathValidator_non_string [of "JNumber (Finite 5)" trezor_defaults]
        derivationPathValidator_non_string [of JUndefined trezor_defaults]
        derivationPathValidator_non_string [of JNull trezor_defaults]
        derivationPathValidator_non_string [of "JObject True" trezor_defaults]
  by (simp add: trezor_defaults_def)

text \<open>
  Claim C2 as stated lets the placeholder stand for undefined and null only. The number 0
  is not a string, and its message carries the placeholder instead of the input.
\<close>

theorem derivationPathValidator_zero_counterexample:
  "typeof (JNumber (Finite 0)) \<noteq> ''string''
   \<and> derivationPathValidator trezor_defaults (JNumber (Finite 0))
        \<noteq> Inl (Error (notString_message_as_specified trezor_defaults (JNumber (Finite 0))))
   \<and> derivationPathValidator trezor_defaults (JNumber (Finite 0))
        = Inl (Error (Text [Msg ''derivationPath'' ''notString'', Lit '': '', Lit ''undefined'']))"
  by (simp add: derivationPathValidator_def interpolate_or_def value_or_def
        notString_message_as_specified_def trezor_defaults_def)

section \<open>addressValidator and hexSequenceValidator\<close>

text \<open>
  Claim C6. With the address pattern of the specification, \<^verbatim>\<open>addressValidator\<close> checks
  the length set {40, 42} before the pattern: every string of another length fails with
  \<^verbatim>\<open>notLength\<close> whatever its characters. So \<^verbatim>\<open>"0x" + "a".repeat(40)\<close> is accepted,
  \<^verbatim>\<open>"a".repeat(41)\<close> fails with \<^verbatim>\<open>notLength\<close>, and \<^verbatim>\<open>"0x" + "g".repeat(40)\<close>, of
  the right length, fails with the different error \<^verbatim>\<open>notFormat\<close>.
\<close>

theorem addressValidator_length_before_pattern:
  assumes "MATCH_ADDRESS d = ADDRESS_pattern"
  shows
    "(length s \<noteq> 40 \<and> length s \<noteq> 42 \<longrightarrow>
        addressValidator d (JString s) =
          Inl (Error (Text [Msg ''address'' ''notLength'', Lit '': '',
                            value_or (JString s) (UNDEFINED d)])))
     \<and> addressValidator d (JString (''0x'' @ replicate 40 (CHR ''a''))) = Inr True
     \<and> addressValidator d (JString (replicate 41 (CHR ''a''))) =
         Inl (Error (Text [Msg ''address'' ''notLength'', Lit '': '',
                           Val (JString (replicate 41 (CHR ''a'')))]))
     \<and> addressValidator d (JString (''0x'' @ replicate 40 (CHR ''g''))) =
         Inl (Error (Text [Msg ''address'' ''notFormat'', Lit '': '',
                           Val (JString (''0x'' @ replicate 40 (CHR ''g'')))]))"
proof -
  have short: "length s \<noteq> 40 \<and> length s \<noteq> 42 \<longrightarrow>
        addressValidator d (JString s) =
          Inl (Error (Text [Msg ''address'' ''notLength'', Lit '': '',
                            value_or (JString s) (UNDEFINED d)]))"
    by (simp add: addressValidator_def validatorGenerator_def assertTruth_def)
  have good: "addressValidator d (JString (''0x'' @ replicate 40 (CHR ''a''))) = Inr True"
    using address_a by (simp add: addressValidator_def runner_simps assms)
  have odd: "addressValidator d (JString (replicate 41 (CHR ''a''))) =
         Inl (Error (Text [Msg ''address'' ''notLength'', Lit '': '',
                           Val (JString (replicate 41 (CHR ''a'')))]))"
    by (simp add: addressValidator_def runner_simps)
  have bad: "addressValidator d (JString (''0x'' @ replicate 40 (CHR ''g''))) =
         Inl (Error (Text [Msg ''address'' ''notFormat'', Lit '': '',
                           Val (JString (''0x'' @ replicate 40 (CHR ''g'')))]))"
    using address_g by (simp add: addressValidator_def runner_simps assms)
  from short good odd bad show ?thesis
    by blast
qed

theorem addressValidator_length_before_pattern_witness:
  "addressValidator trezor_defaults (JString ''0x12'') =
     Inl (Error (Text [Msg ''address'' ''notLength'', Lit '': '', Val (JString ''0x12'')]))
   \<and> addressValidator trezor_defaults (JString (''0x'' @ replicate 40 (CHR ''a''))) = Inr True"
proof -
  have "MATCH_ADDRESS trezor_defaults = ADDRESS_pattern"
    by (simp add: trezor_defaults_def)
  from addressValidator_length_before_pattern [OF this, of "''0x12''"]
  show ?thesis
    by (simp add: value_or_def)
qed

text \<open>
  Claim C4, as amended. \<^verbatim>\<open>hexSequenceValidator\<close> fails on every string longer than 1024
  characters: with \<^verbatim>\<open>tooBig\<close> when the string matches the hex pattern and with
  \<^verbatim>\<open>notFormat\<close> when it does not. With the hex pattern of the specification, the
  1026-character string \<^verbatim>\<open>"0x" + "f".repeat(1024)\<close> fails with \<^verbatim>\<open>tooBig\<close>, and the
  1024-character string \<^verbatim>\<open>"0x" + "f".repeat(1022)\<close> passes.
\<close>

theorem hexSequenceValidator_size_cap:
  "(1024 < length s \<longrightarrow>
      hexSequenceValidator d (JString s) =
        Inl (Error (Text [Msg ''hexSequence'' (if MATCH_HEX_STRING d s then ''tooBig'' else ''notFormat''),
                          Lit '': '', Val (JString s)])))
   \<and> (MATCH_HEX_STRING d = HEX_STRING_pattern \<longrightarrow>
        hexSequenceValidator d (JString (''0x'' @ replicate 1024 (CHR ''f''))) =
          Inl (Error (Text [Msg ''hexSequence'' ''tooBig'', Lit '': '',
                            Val (JString (''0x'' @ replicate 1024 (CHR ''f'')))]))
        \<and> hexSequenceValidator d (JString (''0x'' @ replicate 1022 (CHR ''f''))) = Inr True)"
proof (intro conjI impI)
  assume "1024 < length s"
  then show "hexSequenceValidator d (JString s) =
        Inl (Error (Text [Msg ''hexSequence'' (if MATCH_HEX_STRING d s then ''tooBig'' else ''notFormat''),
                          Lit '': '', Val (JString s)]))"
    by (auto simp: hexSequenceValidator_def runner_simps)
next
  assume m: "MATCH_HEX_STRING d = HEX_STRING_pattern"
  show "hexSequenceValidator d (JString (''0x'' @ replicate 1024 (CHR ''f''))) =
          Inl (Error (Text [Msg ''hexSequence'' ''tooBig'', Lit '': '',
                            Val (JString (''0x'' @ replicate 1024 (CHR ''f'')))]))"
    using hex_string_f [of 1024] by (simp add: hexSequenceValidator_def runner_simps m)
  show "hexSequenceValidator d (JString (''0x'' @ replicate 1022 (CHR ''f''))) = Inr True"
    using hex_string_f [of 1022] by (simp add: hexSequenceValidator_def runner_simps m)
qed

theorem hexSequenceValidator_size_cap_witness:
  "hexSequenceValidator trezor_defaults (JString (replicate 1025 (CHR ''g''))) =
     Inl (Error (Text [Msg ''hexSequence'' ''notFormat'', Lit '': '',
                       Val (JString (replicate 1025 (CHR ''g'')))]))
   \<and> hexSequenceValidator trezor_defaults (JString (''0x'' @ replicate 1022 (CHR ''f''))) = Inr True"
  using hexSequenceValidator_size_cap [of "replicate 1025 (CHR ''g'')" trezor_defaults]
        hex_string_g
  by (simp add: trezor_defaults_def)

text \<open>
  Claim C4 as stated has the 1026-character string \<^verbatim>\<open>"0x" + "f".repeat(1024)\<close> pass. It
  does not.
\<close>

theorem hexSequenceValidator_1026_counterexample:
  "length (''0x'' @ replicate 1024 (CHR ''f'')) = 1026
   \<and> hexSequenceValidator trezor_defaults (JString (''0x'' @ replicate 1024 (CHR ''f'')))
       \<noteq> Inr True"
  using hex_string_f [of 1024]
  by (simp add: hexSequenceValidator_def runner_simps trezor_defaults_def)

text \<open>
  Claim C3, as amended. On a string, where the type check passes, \<^verbatim>\<open>addressValidator\<close>
  checks the length set {40, 42} and then the address pattern; \<^verbatim>\<open>hexSequenceValidator\<close>
  checks the hex pattern and then the bound of 1024 characters; \<^verbatim>\<open>messageValidator\<close>
  checks the bound only. The first check that fails, in that order, gives the error. On a
  boolean or a number \<^verbatim>\<open>messageValidator\<close> fails its type check first, with
  \<^verbatim>\<open>notString\<close>.
\<close>

theorem string_checks_in_order:
  "addressValidator d (JString s) =
     (if length s \<noteq> 40 \<and> length s \<noteq> 42
      then Inl (Error (Text [Msg ''address'' ''notLength'', Lit '': '',
                             value_or (JString s) (UNDEFINED d)]))
      else if \<not> MATCH_ADDRESS d s
      then Inl (Error (Text [Msg ''address'' ''notFormat'', Lit '': '',
                             value_or (JString s) (UNDEFINED d)]))
      else Inr True)
   \<and> hexSequenceValidator d (JString s) =
     (if \<not> MATCH_HEX_STRING d s
      then Inl (Error (Text [Msg ''hexSequence'' ''notFormat'', Lit '': '',
                             value_or (JString s) (UNDEFINED d)]))
      else if 1024 < length s
      then Inl (Error (Text [Msg ''hexSequence'' ''tooBig'', Lit '': '',
                             value_or (JString s) (UNDEFINED d)]))
      else Inr True)
   \<and> messageValidator d (JString s) =
     (if 1024 < length s
      then Inl (Error (Text [Msg ''message'' ''tooBig'', Lit '': '',
                             value_or (JString s) (UNDEFINED d)]))
      else Inr True)
   \<and> (v \<in> {JBoolean b, JNumber n} \<longrightarrow>
        messageValidator d v =
          Inl (Error (Text [Msg ''message'' ''notString'', Lit '': '',
                            ErrorStringOr v (UNDEFINED d)])))"
proof -
  have a: "addressValidator d (JString s) =
     (if length s \<noteq> 40 \<and> length s \<noteq> 42
      then Inl (Error (Text [Msg ''address'' ''notLength'', Lit '': '',
                             value_or (JString s) (UNDEFINED d)]))
      else if \<not> MATCH_ADDRESS d s
      then Inl (Error (Text [Msg ''address'' ''notFormat'', Lit '': '',
                             value_or (JString s) (UNDEFINED d)]))
      else Inr True)"
    by (simp add: addressValidator_def validatorGenerator_def assertTruth_def)
  have h: "hexSequenceValidator d (JString s) =
     (if \<not> MATCH_HEX_STRING d s
      then Inl (Error (Text [Msg ''hexSequence'' ''notFormat'', Lit '': '',
                             value_or (JString s) (UNDEFINED d)]))
      else if 1024 < length s
      then Inl (Error (Text [Msg ''hexSequence'' ''tooBig'', Lit '': '',
                             value_or (JString s) (UNDEFINED d)]))
      else Inr True)"
    by (simp add: hexSequenceValidator_def validatorGenerator_def assertTruth_def)
  have m: "messageValidator d (JString s) =
     (if 1024 < length s
      then Inl (Error (Text [Msg ''message'' ''tooBig'', Lit '': '',
                             value_or (JString s) (UNDEFINED d)]))
      else Inr True)"
    by (simp add: messageValidator_def validatorGenerator_def assertTruth_def)
  have t: "v \<in> {JBoolean b, JNumber n} \<longrightarrow>
        messageValidator d v =
          Inl (Error (Text [Msg ''message'' ''notString'', Lit '': '',
                            ErrorStringOr v (UNDEFINED d)]))"
    by (auto simp: messageValidator_def validatorGenerator_def assertTruth_def
          interpolate_or_def)
  from a h m t show ?thesis
    by (intro conjI)
qed

theorem string_checks_in_order_witness:
  "hexSequenceValidator trezor_defaults (JString (replicate 1025 (CHR ''g''))) =
     Inl (Error (Text [Msg ''hexSequence'' ''notFormat'', Lit '': '',
                       Val (JString (replicate 1025 (CHR ''g'')))]))
   \<and> messageValidator trezor_defaults (JNumber (Finite 5)) =
     Inl (Error (Text [Msg ''message'' ''notString'', Lit '': '',
                       ErrorStringOr (JNumber (Finite 5)) ''undefined'']))"
  using string_checks_in_order
          [of trezor_defaults "replicate 1025 (CHR ''g'')" "JNumber (Finite 5)" True "Finite 5"]
        hex_string_g
  by (simp add: trezor_defaults_def value_or_def)

text \<open>
  Claim C3 as stated puts the size bound of the hex sequence before its pattern. On a
  string of 1025 letters \<^verbatim>\<open>g\<close> that order raises \<^verbatim>\<open>tooBig\<close>, and the validator
  raises \<^verbatim>\<open>notFormat\<close>.
\<close>

theorem hexSequence_order_counterexample:
  "hexSequenceValidator trezor_defaults (JString (replicate 1025 (CHR ''g'')))
     \<noteq> hexSequence_checks_as_specified trezor_defaults (replicate 1025 (CHR ''g''))"
  using hex_string_g
  by (simp add: hexSequenceValidator_def hexSequence_checks_as_specified_def runner_simps
        trezor_defaults_def)

section \<open>The library facade\<close>

text \<open>
  Claim C9, as amended. The properties of the facade's export are \<^verbatim>\<open>wallets\<close>,
  \<^verbatim>\<open>utils\<close> and \<^verbatim>\<open>about\<close>, together with the properties of the debug export exactly
  when the flag \<^verbatim>\<open>ENV\<close> equals \<^verbatim>\<open>development\<close>. In that case each property of the debug
  export is on the facade with its value; for every other value of the flag the export is
  the one built without a debug export.
\<close>

theorem colonyWallet_debug_in_development:
  "dom (colonyWallet ENV debug name version) =
     {''wallets'', ''utils'', ''about''} \<union> (if ENV = ''development'' then dom debug else {})
   \<and> (ENV = ''development'' \<longrightarrow>
        (\<forall>k \<in> dom debug. colonyWallet ENV debug name version k = debug k))
   \<and> (ENV \<noteq> ''development'' \<longrightarrow>
        colonyWallet ENV debug name version = colonyWallet ENV Map.empty name version)"
proof (intro conjI impI ballI)
  show "dom (colonyWallet ENV debug name version) =
     {''wallets'', ''utils'', ''about''} \<union> (if ENV = ''development'' then dom debug else {})"
    by (auto simp: colonyWallet_def Object_assign_def)
next
  fix k
  assume "ENV = ''development''" "k \<in> dom debug"
  then show "colonyWallet ENV debug name version k = debug k"
    by (simp add: colonyWallet_def Object_assign_def map_add_dom_app_simps(1))
next
  assume "ENV \<noteq> ''development''"
  then show "colonyWallet ENV debug name version = colonyWallet ENV Map.empty name version"
    by (simp add: colonyWallet_def Object_assign_def)
qed

theorem colonyWallet_debug_in_development_witness:
  "colonyWallet ''development'' [''debug'' \<mapsto> Imported ''debug''] ''purser'' ''1.0.0'' ''debug''
     = Some (Imported ''debug'')
   \<and> dom (colonyWallet ''production'' [''debug'' \<mapsto> Imported ''debug''] ''purser'' ''1.0.0'')
     = {''wallets'', ''utils'', ''about''}"
  using colonyWallet_debug_in_development
          [of "''development''" "[''debug'' \<mapsto> Imported ''debug'']" "''purser''" "''1.0.0''",
           THEN conjunct2, THEN conjunct1]
        colonyWallet_debug_in_development
          [of "''production''" "[''debug'' \<mapsto> Imported ''debug'']" "''purser''" "''1.0.0''",
           THEN conjunct1]
  by simp

text \<open>
  Claim C9 as stated attaches the debug export to every non-production build. With the
  flag \<^verbatim>\<open>test\<close>, which is not \<^verbatim>\<open>production\<close>, the debug property is absent.
\<close>

theorem colonyWallet_test_build_counterexample:
  "non_production_build ''test''
   \<and> colonyWallet ''test'' [''debug'' \<mapsto> Imported ''debug''] ''purser'' ''1.0.0'' ''debug'' = None"
  by (simp add: non_production_build_def colonyWallet_def Object_assign_def map_add_def)

end
